theory Spec2Isabelle
  imports Complex_Main
begin

section \<open>The payment-confirmation poller\<close>

text \<open>
  The consultations screen (\<^verbatim>\<open>pollPaymentStatus\<close>) and the payment-success screen
  (\<^verbatim>\<open>verifyPaymentStatus\<close>) each hold one copy of the polling routine: an async
  function that issues one GET on \<^verbatim>\<open>/api/payments/status/${sessionId}\<close>, looks at the
  reply, and either performs its terminal UI effects or re-arms itself through
  \<^verbatim>\<open>setTimeout\<close> with \<^verbatim>\<open>attempts + 1\<close>. The embedding below turns each routine into a
  function from the backend's replies to the list of effects it performs, in order.
\<close>

subsection \<open>Backend replies\<close>

text \<open>
  A value of the parsed JSON body, as far as the routines can tell values apart:
  \<open>JUndefined\<close> is an absent field, \<open>JObject\<close> any object or array. \<open>truthy\<close> is
  the test that \<^verbatim>\<open>if (value)\<close> performs.
\<close>

datatype jsvalue = JUndefined | JNull | JBool bool | JNumber real | JString string | JObject

fun truthy :: "jsvalue \<Rightarrow> bool" where
  "truthy JUndefined = False"
| "truthy JNull = False"
| "truthy (JBool b) = b"
| "truthy (JNumber x) = (x \<noteq> 0)"
| "truthy (JString s) = (s \<noteq> [])"
| "truthy JObject = True"

text \<open>
  The fields of \<^verbatim>\<open>response.data\<close> the routines read. The two status fields are
  compared with \<^verbatim>\<open>===\<close> against a string literal, which only a string can satisfy:
  a status field that is absent, or that is not a string, is \<open>None\<close>. The consultation
  id is tested for truthiness and interpolated into a URL, so it keeps its JSON value.
\<close>

record status_data =
  payment_status :: "string option"
  status :: "string option"
  consultation_request_id :: jsvalue

text \<open>
  What \<^verbatim>\<open>await axios.get(...)\<close> followed by the reads of \<^verbatim>\<open>data\<close> does inside the
  \<^verbatim>\<open>try\<close>: either it yields the data, or control reaches the \<^verbatim>\<open>catch\<close> (network error,
  non-2xx status, or a body on which the property access throws).
\<close>

datatype query_result = Resolved status_data | Rejected

text \<open>The nested GET on \<^verbatim>\<open>/api/consultations/${id}\<close> of the success screen.\<close>

datatype details_result = DetailsResolved | DetailsRejected

text \<open>
  The replies of the backend to the successive status queries of one invocation:
  \<open>replies 0\<close> answers the next query, \<open>later replies\<close> are the replies after it.
\<close>

definition later :: "(nat \<Rightarrow> query_result) \<Rightarrow> nat \<Rightarrow> query_result" where
  "later replies k = replies (Suc k)"

subsection \<open>Effects\<close>

datatype event =
    StatusQuery string
  | DetailsQuery jsvalue
  | SetTimeout nat
  | Alert string string "string list"
  | ConsoleError string
  | SetShowPaymentStatus bool
  | SetLoading bool
  | SetPaymentStatus string
  | SetConsultationDetails

definition maxAttempts :: nat where
  "maxAttempts = 10"

definition pollInterval :: nat where
  "pollInterval = 2000"

subsection \<open>The consultations screen\<close>

text \<open>
  \<^verbatim>\<open>pollPaymentStatus(sessionId, attempts = 0)\<close>. The body runs once per call; the
  recursive call is the callback handed to \<^verbatim>\<open>setTimeout\<close>, which the model runs when
  the timer fires: the handle is dropped, so nothing can clear it. The third component
  of an alert lists its buttons; the handler of the OK button of the success alert runs
  when the user presses it and is not part of the routine's own effects.
\<close>

function pollPaymentStatus :: "string \<Rightarrow> (nat \<Rightarrow> query_result) \<Rightarrow> nat \<Rightarrow> event list" where
  "pollPaymentStatus sessionId replies attempts =
    (if attempts \<ge> maxAttempts then
       [Alert ''Error'' ''Payment status check timed out. Please check your consultation history.'' [],
        SetShowPaymentStatus False]
     else StatusQuery sessionId #
       (case replies 0 of
          Resolved data \<Rightarrow>
            if payment_status data = Some ''paid'' then
              [Alert ''Payment Successful!''
                 ''Your consultation has been booked successfully. You will receive a confirmation email shortly.''
                 [''OK'']]
            else if status data = Some ''expired'' then
              [Alert ''Payment Expired'' ''Your payment session has expired. Please try booking again.'' [],
               SetShowPaymentStatus False]
            else SetTimeout pollInterval # pollPaymentStatus sessionId (later replies) (attempts + 1)
        | Rejected \<Rightarrow>
            ConsoleError ''Error checking payment status:'' #
            (if attempts < 3 then
               SetTimeout pollInterval # pollPaymentStatus sessionId (later replies) (attempts + 1)
             else
               [Alert ''Error'' ''Unable to verify payment status. Please check your consultation history.'' [],
                SetShowPaymentStatus False])))"
  by pat_completeness auto
termination
  by (relation "measure (\<lambda>(s, r, a). maxAttempts - a)") (auto simp: maxAttempts_def)

subsection \<open>The payment-success screen\<close>

text \<open>
  \<^verbatim>\<open>verifyPaymentStatus(sessionId, attempts = 0)\<close>. The paid branch tests
  \<^verbatim>\<open>data.consultation_request_id\<close> for truthiness and, when it is truthy, fetches
  the consultation inside a \<^verbatim>\<open>try\<close> of its own, whose \<^verbatim>\<open>catch\<close> only logs.
\<close>

function verifyPaymentStatus ::
  "string \<Rightarrow> (nat \<Rightarrow> query_result) \<Rightarrow> details_result \<Rightarrow> nat \<Rightarrow> event list" where
  "verifyPaymentStatus sessionId replies details attempts =
    (if attempts \<ge> maxAttempts then
       [SetLoading False,
        Alert ''Error'' ''Payment verification timeout. Please check your consultation history.'' []]
     else StatusQuery sessionId #
       (case replies 0 of
          Resolved data \<Rightarrow>
            if payment_status data = Some ''paid'' then
              SetPaymentStatus ''success'' # SetLoading False #
              (if truthy (consultation_request_id data) then
                 DetailsQuery (consultation_request_id data) #
                   (case details of
                      DetailsResolved \<Rightarrow> [SetConsultationDetails]
                    | DetailsRejected \<Rightarrow> [ConsoleError ''Failed to load consultation details:''])
               else [])
            else if status data = Some ''expired'' then
              [SetPaymentStatus ''expired'', SetLoading False]
            else SetTimeout pollInterval #
                   verifyPaymentStatus sessionId (later replies) details (attempts + 1)
        | Rejected \<Rightarrow>
            ConsoleError ''Error verifying payment:'' #
            (if attempts < 3 then
               SetTimeout pollInterval #
                 verifyPaymentStatus sessionId (later replies) details (attempts + 1)
             else
               [SetLoading False, SetPaymentStatus ''error''])))"
  by pat_completeness auto
termination
  by (relation "measure (\<lambda>(s, r, d, a). maxAttempts - a)") (auto simp: maxAttempts_def)

subsection \<open>What a run shows to its caller\<close>

text \<open>
  The four terminal outcomes, and the UI effect by which each screen delivers them:
  the consultations screen through its alerts, the success screen through
  \<^verbatim>\<open>setPaymentStatus\<close> (and an alert for the timeout, which leaves \<^verbatim>\<open>paymentStatus\<close> alone).
\<close>

datatype outcome = Paid | Expired | TimedOut | Failed

definition notification :: "event \<Rightarrow> outcome option" where
  "notification e =
    (case e of
       Alert title message buttons \<Rightarrow>
         if title = ''Payment Successful!'' then Some Paid
         else if title = ''Payment Expired'' then Some Expired
         else if title = ''Error'' \<and>
                 message = ''Payment status check timed out. Please check your consultation history.''
           then Some TimedOut
         else if title = ''Error'' \<and>
                 message = ''Payment verification timeout. Please check your consultation history.''
           then Some TimedOut
         else if title = ''Error'' \<and>
                 message = ''Unable to verify payment status. Please check your consultation history.''
           then Some Failed
         else None
     | SetPaymentStatus s \<Rightarrow>
         if s = ''success'' then Some Paid
         else if s = ''expired'' then Some Expired
         else if s = ''error'' then Some Failed
         else None
     | _ \<Rightarrow> None)"

primrec resolutions :: "event list \<Rightarrow> outcome list" where
  "resolutions [] = []"
| "resolutions (e # es) =
     (case notification e of None \<Rightarrow> resolutions es | Some out \<Rightarrow> out # resolutions es)"

primrec status_queries :: "event list \<Rightarrow> nat" where
  "status_queries [] = 0"
| "status_queries (e # es) =
     (case e of StatusQuery _ \<Rightarrow> Suc (status_queries es) | _ \<Rightarrow> status_queries es)"

primrec total_wait :: "event list \<Rightarrow> nat" where
  "total_wait [] = 0"
| "total_wait (e # es) =
     (case e of SetTimeout ms \<Rightarrow> ms + total_wait es | _ \<Rightarrow> total_wait es)"

text \<open>The number of status queries issued after the first terminal notification.\<close>

primrec queries_after_resolution :: "event list \<Rightarrow> nat" where
  "queries_after_resolution [] = 0"
| "queries_after_resolution (e # es) =
     (case notification e of None \<Rightarrow> queries_after_resolution es | Some _ \<Rightarrow> status_queries es)"

subsection \<open>Vocabulary of the properties\<close>

text \<open>A successful reply that is neither paid nor expired.\<close>

definition still_pending :: "query_result \<Rightarrow> bool" where
  "still_pending q =
    (case q of
       Resolved data \<Rightarrow> payment_status data \<noteq> Some ''paid'' \<and> status data \<noteq> Some ''expired''
     | Rejected \<Rightarrow> False)"

text \<open>A reply after which the call made with \<open>attempts\<close> re-arms the timer.\<close>

definition continues :: "nat \<Rightarrow> query_result \<Rightarrow> bool" where
  "continues attempts q =
    (case q of
       Resolved data \<Rightarrow> payment_status data \<noteq> Some ''paid'' \<and> status data \<noteq> Some ''expired''
     | Rejected \<Rightarrow> attempts < 3)"

text \<open>Scripted replies: the list, then \<open>d\<close> forever.\<close>

definition script :: "query_result list \<Rightarrow> query_result \<Rightarrow> nat \<Rightarrow> query_result" where
  "script qs d k = (if k < length qs then qs ! k else d)"

definition pending_data :: status_data where
  "pending_data = \<lparr>payment_status = Some ''pending'', status = Some ''open'',
                    consultation_request_id = JUndefined\<rparr>"

definition paid_data :: status_data where
  "paid_data = \<lparr>payment_status = Some ''paid'', status = Some ''complete'',
                 consultation_request_id = JString ''c1''\<rparr>"

text \<open>The replies that remain after \<open>n\<close> queries.\<close>

definition skip :: "nat \<Rightarrow> (nat \<Rightarrow> query_result) \<Rightarrow> nat \<Rightarrow> query_result" where
  "skip n replies k = replies (n + k)"

text \<open>
  A trace settles when it holds a terminal notification after which it holds neither a
  second notification nor a status query.
\<close>

primrec settles :: "event list \<Rightarrow> bool" where
  "settles [] = False"
| "settles (e # es) =
     (case notification e of
        None \<Rightarrow> settles es
      | Some _ \<Rightarrow> resolutions es = [] \<and> status_queries es = 0)"

text \<open>The four conditions of the lifecycle invariant, read off the effects performed so far.\<close>

definition still_polling :: "event list \<Rightarrow> bool" where
  "still_polling tr = (resolutions tr = [])"

definition terminal_success :: "event list \<Rightarrow> bool" where
  "terminal_success tr = (resolutions tr = [Paid])"

definition terminal_expired :: "event list \<Rightarrow> bool" where
  "terminal_expired tr = (resolutions tr = [Expired])"

definition terminal_error :: "event list \<Rightarrow> bool" where
  "terminal_error tr = (resolutions tr = [TimedOut] \<or> resolutions tr = [Failed])"

definition exactly_one :: "bool list \<Rightarrow> bool" where
  "exactly_one bs = (length (filter (\<lambda>b. b) bs) = 1)"

subsection \<open>The consultations screen around the poll\<close>

text \<open>
  The body of \<^verbatim>\<open>pollPaymentStatus\<close> run once, on the reply to the query it issues
  (consulted only when a query is issued): the effects of that call and, when the call
  arms the timer, the \<^verbatim>\<open>attempts\<close> argument of the callback handed to \<^verbatim>\<open>setTimeout\<close>.
\<close>

definition poll_call :: "string \<Rightarrow> query_result \<Rightarrow> nat \<Rightarrow> event list \<times> nat option" where
  "poll_call sessionId reply attempts =
    (if attempts \<ge> maxAttempts then
       ([Alert ''Error'' ''Payment status check timed out. Please check your consultation history.'' [],
         SetShowPaymentStatus False], None)
     else
       (case reply of
          Resolved data \<Rightarrow>
            if payment_status data = Some ''paid'' then
              ([StatusQuery sessionId,
                Alert ''Payment Successful!''
                  ''Your consultation has been booked successfully. You will receive a confirmation email shortly.''
                  [''OK'']], None)
            else if status data = Some ''expired'' then
              ([StatusQuery sessionId,
                Alert ''Payment Expired'' ''Your payment session has expired. Please try booking again.'' [],
                SetShowPaymentStatus False], None)
            else ([StatusQuery sessionId, SetTimeout pollInterval], Some (attempts + 1))
        | Rejected \<Rightarrow>
            if attempts < 3 then
              ([StatusQuery sessionId, ConsoleError ''Error checking payment status:'',
                SetTimeout pollInterval], Some (attempts + 1))
            else
              ([StatusQuery sessionId, ConsoleError ''Error checking payment status:'',
                Alert ''Error'' ''Unable to verify payment status. Please check your consultation history.'' [],
                SetShowPaymentStatus False], None)))"

text \<open>
  The screen while a poll is under way: whether the component is still mounted, the
  timer the last call armed (its callback's \<^verbatim>\<open>attempts\<close>), the number of status queries
  answered so far, and the effects performed so far.
\<close>

record screen =
  mounted :: bool
  armed :: "nat option"
  answered :: nat
  performed :: "event list"

text \<open>
  What can happen between two calls. The armed timer fires and runs its callback; or
  the caller withdraws: the user leaves the screen and the component unmounts. This
  is the only withdrawal the screen offers. The mount effect that starts the poll
  (\<^verbatim>\<open>useEffect(() => { ...; checkPaymentReturn(); }, [])\<close>) returns no cleanup function,
  the handle that \<^verbatim>\<open>setTimeout\<close> returns is dropped, and the routine reads no mounted
  flag: unmounting leaves the armed timer in place.
\<close>

datatype happening = TimerFires | Unmount

definition run_call :: "string \<Rightarrow> (nat \<Rightarrow> query_result) \<Rightarrow> nat \<Rightarrow> screen \<Rightarrow> screen" where
  "run_call sessionId replies attempts s =
    (case poll_call sessionId (replies (answered s)) attempts of
       (es, next) \<Rightarrow>
         s\<lparr>armed := next, answered := answered s + status_queries es,
           performed := performed s @ es\<rparr>)"

text \<open>\<^verbatim>\<open>pollPaymentStatus(sessionId)\<close>, as \<^verbatim>\<open>checkPaymentReturn\<close> calls it on mount.\<close>

definition invoke :: "string \<Rightarrow> (nat \<Rightarrow> query_result) \<Rightarrow> screen" where
  "invoke sessionId replies =
    run_call sessionId replies 0 \<lparr>mounted = True, armed = None, answered = 0, performed = []\<rparr>"

fun happen :: "string \<Rightarrow> (nat \<Rightarrow> query_result) \<Rightarrow> screen \<Rightarrow> happening \<Rightarrow> screen" where
  "happen sessionId replies s Unmount = s\<lparr>mounted := False\<rparr>"
| "happen sessionId replies s TimerFires =
     (case armed s of
        None \<Rightarrow> s
      | Some attempts \<Rightarrow> run_call sessionId replies attempts s)"

definition session :: "string \<Rightarrow> (nat \<Rightarrow> query_result) \<Rightarrow> happening list \<Rightarrow> screen" where
  "session sessionId replies hs = foldl (happen sessionId replies) (invoke sessionId replies) hs"


section \<open>Unfolding one call\<close>

lemma notification_simps [simp]:
  "notification (Alert ''Error'' ''Payment status check timed out. Please check your consultation history.'' bs) = Some TimedOut"
  "notification (Alert ''Error'' ''Payment verification timeout. Please check your consultation history.'' bs) = Some TimedOut"
  "notification (Alert ''Error'' ''Unable to verify payment status. Please check your consultation history.'' bs) = Some Failed"
  "notification (Alert ''Payment Successful!'' m bs) = Some Paid"
  "notification (Alert ''Payment Expired'' m bs) = Some Expired"
  "notification (SetPaymentStatus ''success'') = Some Paid"
  "notification (SetPaymentStatus ''expired'') = Some Expired"
  "notification (SetPaymentStatus ''error'') = Some Failed"
  "notification (StatusQuery sid) = None"
  "notification (DetailsQuery rid) = None"
  "notification (SetTimeout ms) = None"
  "notification (ConsoleError m) = None"
  "notification (SetShowPaymentStatus b) = None"
  "notification (SetLoading b) = None"
  "notification SetConsultationDetails = None"
  by (simp_all add: notification_def)

declare pollPaymentStatus.simps [simp del] verifyPaymentStatus.simps [simp del]

lemma poll_timed_out:
  "maxAttempts \<le> a \<Longrightarrow> pollPaymentStatus sid r a =
     [Alert ''Error'' ''Payment status check timed out. Please check your consultation history.'' [],
      SetShowPaymentStatus False]"
  by (subst pollPaymentStatus.simps) simp

lemma poll_paid:
  "a < maxAttempts \<Longrightarrow> r 0 = Resolved d \<Longrightarrow> payment_status d = Some ''paid'' \<Longrightarrow>
   pollPaymentStatus sid r a =
     [StatusQuery sid,
      Alert ''Payment Successful!''
        ''Your consultation has been booked successfully. You will receive a confirmation email shortly.''
        [''OK'']]"
  by (subst pollPaymentStatus.simps) simp

lemma poll_expired:
  "a < maxAttempts \<Longrightarrow> r 0 = Resolved d \<Longrightarrow> payment_status d \<noteq> Some ''paid'' \<Longrightarrow>
   status d = Some ''expired'' \<Longrightarrow>
   pollPaymentStatus sid r a =
     [StatusQuery sid,
      Alert ''Payment Expired'' ''Your payment session has expired. Please try booking again.'' [],
      SetShowPaymentStatus False]"
  by (subst pollPaymentStatus.simps) simp

lemma poll_pending:
  "a < maxAttempts \<Longrightarrow> r 0 = Resolved d \<Longrightarrow> payment_status d \<noteq> Some ''paid'' \<Longrightarrow>
   status d \<noteq> Some ''expired'' \<Longrightarrow>
   pollPaymentStatus sid r a =
     StatusQuery sid # SetTimeout pollInterval # pollPaymentStatus sid (later r) (Suc a)"
  by (subst pollPaymentStatus.simps) simp

lemma poll_retry:
  "a < 3 \<Longrightarrow> r 0 = Rejected \<Longrightarrow>
   pollPaymentStatus sid r a =
     StatusQuery sid # ConsoleError ''Error checking payment status:'' #
     SetTimeout pollInterval # pollPaymentStatus sid (later r) (Suc a)"
  by (subst pollPaymentStatus.simps) (simp add: maxAttempts_def)

lemma poll_failed:
  "3 \<le> a \<Longrightarrow> a < maxAttempts \<Longrightarrow> r 0 = Rejected \<Longrightarrow>
   pollPaymentStatus sid r a =
     [StatusQuery sid, ConsoleError ''Error checking payment status:'',
      Alert ''Error'' ''Unable to verify payment status. Please check your consultation history.'' [],
      SetShowPaymentStatus False]"
  by (subst pollPaymentStatus.simps) simp

lemma verify_timed_out:
  "maxAttempts \<le> a \<Longrightarrow> verifyPaymentStatus sid r det a =
     [SetLoading False,
      Alert ''Error'' ''Payment verification timeout. Please check your consultation history.'' []]"
  by (subst verifyPaymentStatus.simps) simp

lemma verify_paid:
  "a < maxAttempts \<Longrightarrow> r 0 = Resolved d \<Longrightarrow> payment_status d = Some ''paid'' \<Longrightarrow>
   verifyPaymentStatus sid r det a =
     StatusQuery sid # SetPaymentStatus ''success'' # SetLoading False #
     (if truthy (consultation_request_id d) then
        DetailsQuery (consultation_request_id d) #
          (case det of
             DetailsResolved \<Rightarrow> [SetConsultationDetails]
           | DetailsRejected \<Rightarrow> [ConsoleError ''Failed to load consultation details:''])
      else [])"
  by (subst verifyPaymentStatus.simps) simp

lemma verify_expired:
  "a < maxAttempts \<Longrightarrow> r 0 = Resolved d \<Longrightarrow> payment_status d \<noteq> Some ''paid'' \<Longrightarrow>
   status d = Some ''expired'' \<Longrightarrow>
   verifyPaymentStatus sid r det a =
     [StatusQuery sid, SetPaymentStatus ''expired'', SetLoading False]"
  by (subst verifyPaymentStatus.simps) simp

lemma verify_pending:
  "a < maxAttempts \<Longrightarrow> r 0 = Resolved d \<Longrightarrow> payment_status d \<noteq> Some ''paid'' \<Longrightarrow>
   status d \<noteq> Some ''expired'' \<Longrightarrow>
   verifyPaymentStatus sid r det a =
     StatusQuery sid # SetTimeout pollInterval # verifyPaymentStatus sid (later r) det (Suc a)"
  by (subst verifyPaymentStatus.simps) simp

lemma verify_retry:
  "a < 3 \<Longrightarrow> r 0 = Rejected \<Longrightarrow>
   verifyPaymentStatus sid r det a =
     StatusQuery sid # ConsoleError ''Error verifying payment:'' #
     SetTimeout pollInterval # verifyPaymentStatus sid (later r) det (Suc a)"
  by (subst verifyPaymentStatus.simps) (simp add: maxAttempts_def)

lemma verify_failed:
  "3 \<le> a \<Longrightarrow> a < maxAttempts \<Longrightarrow> r 0 = Rejected \<Longrightarrow>
   verifyPaymentStatus sid r det a =
     [StatusQuery sid, ConsoleError ''Error verifying payment:'',
      SetLoading False, SetPaymentStatus ''error'']"
  by (subst verifyPaymentStatus.simps) simp

text \<open>The six ways one call can go.\<close>

lemma call_cases:
  obtains
    (timed_out) "maxAttempts \<le> a"
  | (paid) d where "a < maxAttempts" "r 0 = Resolved d" "payment_status d = Some ''paid''"
  | (expired) d where "a < maxAttempts" "r 0 = Resolved d" "payment_status d \<noteq> Some ''paid''"
      "status d = Some ''expired''"
  | (pending) d where "a < maxAttempts" "r 0 = Resolved d" "payment_status d \<noteq> Some ''paid''"
      "status d \<noteq> Some ''expired''"
  | (retry) "a < 3" "r (0::nat) = Rejected"
  | (failed) "3 \<le> a" "a < maxAttempts" "r 0 = Rejected"
  by (cases "r 0") (force simp: not_le)+

lemma verify_observed:
  "resolutions (verifyPaymentStatus sid r det a) = resolutions (pollPaymentStatus sid r a) \<and>
   status_queries (verifyPaymentStatus sid r det a) = status_queries (pollPaymentStatus sid r a) \<and>
   total_wait (verifyPaymentStatus sid r det a) = total_wait (pollPaymentStatus sid r a)"
proof (induction sid r a rule: pollPaymentStatus.induct)
  case (1 sid r a)
  show ?case
  proof (cases rule: call_cases [where a = a and r = r])
    case timed_out
    then show ?thesis by (simp add: poll_timed_out verify_timed_out)
  next
    case (paid d)
    then show ?thesis
      by (simp add: poll_paid verify_paid split: details_result.split)
  next
    case (expired d)
    then show ?thesis by (simp add: poll_expired verify_expired)
  next
    case (pending d)
    with "1.IH"(1) [of d] show ?thesis
      by (simp add: poll_pending verify_pending not_le)
  next
    case retry
    with "1.IH"(2) show ?thesis
      by (simp add: poll_retry verify_retry not_le maxAttempts_def)
  next
    case failed
    then show ?thesis by (simp add: poll_failed verify_failed)
  qed
qed

section \<open>Runs of several calls\<close>

lemma later_skip: "skip n (later r) = skip (Suc n) r"
  by (rule ext) (simp add: skip_def later_def)

lemma skip_0: "skip 0 r = r"
  by (rule ext) (simp add: skip_def)

lemma poll_continue:
  assumes "a < maxAttempts" and "continues a (r 0)"
  shows "resolutions (pollPaymentStatus sid r a) =
           resolutions (pollPaymentStatus sid (later r) (Suc a)) \<and>
         status_queries (pollPaymentStatus sid r a) =
           Suc (status_queries (pollPaymentStatus sid (later r) (Suc a))) \<and>
         total_wait (pollPaymentStatus sid r a) =
           pollInterval + total_wait (pollPaymentStatus sid (later r) (Suc a))"
proof (cases "r 0")
  case (Resolved d)
  with assms show ?thesis
    by (simp add: continues_def poll_pending)
next
  case Rejected
  with assms show ?thesis
    by (simp add: continues_def poll_retry)
qed

lemma poll_continue_n:
  "a + n \<le> maxAttempts \<Longrightarrow> (\<And>i. i < n \<Longrightarrow> continues (a + i) (r i)) \<Longrightarrow>
   resolutions (pollPaymentStatus sid r a) =
     resolutions (pollPaymentStatus sid (skip n r) (a + n)) \<and>
   status_queries (pollPaymentStatus sid r a) =
     n + status_queries (pollPaymentStatus sid (skip n r) (a + n)) \<and>
   total_wait (pollPaymentStatus sid r a) =
     n * pollInterval + total_wait (pollPaymentStatus sid (skip n r) (a + n))"
proof (induction n arbitrary: a r)
  case 0
  then show ?case by (simp add: skip_0)
next
  case (Suc n)
  from Suc.prems(1) have a: "a < maxAttempts" and le: "Suc a + n \<le> maxAttempts"
    by simp_all
  from Suc.prems(2) [of 0] have c0: "continues a (r 0)"
    by simp
  have rest: "continues (Suc a + i) (later r i)" if "i < n" for i
    using Suc.prems(2) [of "Suc i"] that by (simp add: later_def)
  from a c0 have step:
    "resolutions (pollPaymentStatus sid r a) =
       resolutions (pollPaymentStatus sid (later r) (Suc a)) \<and>
     status_queries (pollPaymentStatus sid r a) =
       Suc (status_queries (pollPaymentStatus sid (later r) (Suc a))) \<and>
     total_wait (pollPaymentStatus sid r a) =
       pollInterval + total_wait (pollPaymentStatus sid (later r) (Suc a))"
    by (rule poll_continue)
  from le rest have ih:
    "resolutions (pollPaymentStatus sid (later r) (Suc a)) =
       resolutions (pollPaymentStatus sid (skip n (later r)) (Suc a + n)) \<and>
     status_queries (pollPaymentStatus sid (later r) (Suc a)) =
       n + status_queries (pollPaymentStatus sid (skip n (later r)) (Suc a + n)) \<and>
     total_wait (pollPaymentStatus sid (later r) (Suc a)) =
       n * pollInterval + total_wait (pollPaymentStatus sid (skip n (later r)) (Suc a + n))"
    by (rule Suc.IH)
  from step ih show ?case
    by (simp add: later_skip)
qed

lemma poll_queries_bound:
  "status_queries (pollPaymentStatus sid r a) \<le> maxAttempts - a"
proof (induction sid r a rule: pollPaymentStatus.induct)
  case (1 sid r a)
  show ?case
  proof (cases rule: call_cases [where a = a and r = r])
    case timed_out
    then show ?thesis by (simp add: poll_timed_out)
  next
    case (paid d)
    then show ?thesis by (simp add: poll_paid)
  next
    case (expired d)
    then show ?thesis by (simp add: poll_expired)
  next
    case (pending d)
    with "1.IH"(1) [of d] show ?thesis
      by (simp add: poll_pending not_le)
  next
    case retry
    with "1.IH"(2) show ?thesis
      by (simp add: poll_retry not_le maxAttempts_def)
  next
    case failed
    then show ?thesis by (simp add: poll_failed)
  qed
qed

lemma poll_queries_pos:
  "a < maxAttempts \<Longrightarrow> 0 < status_queries (pollPaymentStatus sid r a)"
  by (subst pollPaymentStatus.simps) simp

lemma poll_settles: "settles (pollPaymentStatus sid r a)"
proof (induction sid r a rule: pollPaymentStatus.induct)
  case (1 sid r a)
  show ?case
  proof (cases rule: call_cases [where a = a and r = r])
    case timed_out
    then show ?thesis by (simp add: poll_timed_out)
  next
    case (paid d)
    then show ?thesis by (simp add: poll_paid)
  next
    case (expired d)
    then show ?thesis by (simp add: poll_expired)
  next
    case (pending d)
    with "1.IH"(1) [of d] show ?thesis
      by (simp add: poll_pending not_le)
  next
    case retry
    with "1.IH"(2) show ?thesis
      by (simp add: poll_retry not_le maxAttempts_def)
  next
    case failed
    then show ?thesis by (simp add: poll_failed)
  qed
qed

lemma verify_settles: "settles (verifyPaymentStatus sid r det a)"
proof (induction sid r det a rule: verifyPaymentStatus.induct)
  case (1 sid r det a)
  show ?case
  proof (cases rule: call_cases [where a = a and r = r])
    case timed_out
    then show ?thesis by (simp add: verify_timed_out)
  next
    case (paid d)
    then show ?thesis
      by (simp add: verify_paid split: details_result.split)
  next
    case (expired d)
    then show ?thesis by (simp add: verify_expired)
  next
    case (pending d)
    with "1.IH"(1) [of d] show ?thesis
      by (simp add: verify_pending not_le)
  next
    case retry
    with "1.IH"(2) show ?thesis
      by (simp add: verify_retry not_le maxAttempts_def)
  next
    case failed
    then show ?thesis by (simp add: verify_failed)
  qed
qed

lemma resolutions_take_Nil: "resolutions es = [] \<Longrightarrow> resolutions (take k es) = []"
proof (induction es arbitrary: k)
  case Nil
  then show ?case by simp
next
  case (Cons e es)
  then show ?case
    by (cases k) (simp_all split: option.splits)
qed

lemma settles_one: "settles tr \<Longrightarrow> \<exists>out. resolutions tr = [out]"
  by (induction tr) (auto split: option.splits)

lemma settles_no_query_after: "settles tr \<Longrightarrow> queries_after_resolution tr = 0"
  by (induction tr) (auto split: option.splits)

lemma settles_prefix:
  "settles tr \<Longrightarrow> resolutions (take k tr) = [] \<or> (\<exists>out. resolutions (take k tr) = [out])"
proof (induction tr arbitrary: k)
  case Nil
  then show ?case by simp
next
  case (Cons e es)
  show ?case
  proof (cases k)
    case 0
    then show ?thesis by simp
  next
    case (Suc j)
    show ?thesis
    proof (cases "notification e")
      case None
      with Cons Suc show ?thesis by simp
    next
      case (Some out)
      with Cons.prems have "resolutions es = []" by simp
      then have "resolutions (take j es) = []" by (rule resolutions_take_Nil)
      with Some Suc show ?thesis by simp
    qed
  qed
qed

lemma phases_exactly_one:
  assumes "resolutions p = [] \<or> (\<exists>out. resolutions p = [out])"
  shows "exactly_one [still_polling p, terminal_success p, terminal_expired p, terminal_error p]"
proof -
  from assms consider "resolutions p = []" | out where "resolutions p = [out]"
    by blast
  then show ?thesis
  proof cases
    case 1
    then show ?thesis
      by (simp add: exactly_one_def still_polling_def terminal_success_def
          terminal_expired_def terminal_error_def)
  next
    case 2
    then show ?thesis
      by (cases out)
        (simp_all add: exactly_one_def still_polling_def terminal_success_def
          terminal_expired_def terminal_error_def)
  qed
qed

subsection \<open>Scripted replies\<close>

lemma script_simps [simp]:
  "script [] d k = d"
  "script (q # qs) d 0 = q"
  "script (q # qs) d (Suc k) = script qs d k"
  by (simp_all add: script_def)

lemma later_script [simp]:
  "later (script (q # qs) d) = script qs d"
  "later (script [] d) = script [] d"
  by (rule ext, simp add: later_def)+

lemma still_pending_continues: "still_pending q \<Longrightarrow> continues a q"
  by (cases q) (simp_all add: still_pending_def continues_def)

lemma rejected_continues: "a < 3 \<Longrightarrow> continues a Rejected"
  by (simp add: continues_def)

lemma skip_apply: "skip n r k = r (n + k)"
  by (simp add: skip_def)

section \<open>The transport-failure budget\<close>

text \<open>
  C1. The specification reads the budget as consecutive: after two transport failures, one
  pending reply and two more transport failures the poller is said not to resolve
  Failed. Neither routine keeps a failure count; the \<^verbatim>\<open>catch\<close> block tests
  \<^verbatim>\<open>attempts < 3\<close>, the number of queries already made. On the scripted replies
  [failure, failure, pending, failure, failure] both screens resolve Failed at the
  fourth query.
\<close>

theorem failure_budget_counterexample:
  "resolutions (pollPaymentStatus ''cs_1''
     (script [Rejected, Rejected, Resolved pending_data, Rejected, Rejected]
        (Resolved pending_data)) 0) = [Failed] \<and>
   status_queries (pollPaymentStatus ''cs_1''
     (script [Rejected, Rejected, Resolved pending_data, Rejected, Rejected]
        (Resolved pending_data)) 0) = 4 \<and>
   resolutions (verifyPaymentStatus ''cs_1''
     (script [Rejected, Rejected, Resolved pending_data, Rejected, Rejected]
        (Resolved pending_data)) DetailsResolved 0) = [Failed]"
  by (simp add: poll_retry poll_pending poll_failed verify_retry verify_pending verify_failed
      maxAttempts_def pending_data_def)

text \<open>
  C1, as the code has it. A transport failure is retried only while fewer than three
  queries precede it, and a successful reply resets nothing: whenever the first two
  queries fail, the third reply is pending and the fourth query fails, both screens
  resolve Failed after exactly four queries, whatever the later replies would be.
\<close>

theorem failure_budget_counts_attempts:
  assumes "r 0 = Rejected" and "r 1 = Rejected" and "still_pending (r 2)" and "r 3 = Rejected"
  shows "resolutions (pollPaymentStatus sid r 0) = [Failed] \<and>
         status_queries (pollPaymentStatus sid r 0) = 4 \<and>
         resolutions (verifyPaymentStatus sid r det 0) = [Failed] \<and>
         status_queries (verifyPaymentStatus sid r det 0) = 4"
proof -
  have c: "continues (0 + i) (r i)" if "i < 3" for i
  proof -
    from that consider "i = 0" | "i = 1" | "i = 2" by linarith
    then show ?thesis
      using assms by cases (simp_all add: rejected_continues still_pending_continues)
  qed
  have "0 + 3 \<le> maxAttempts" by (simp add: maxAttempts_def)
  from this c have run:
    "resolutions (pollPaymentStatus sid r 0) =
       resolutions (pollPaymentStatus sid (skip 3 r) (0 + 3)) \<and>
     status_queries (pollPaymentStatus sid r 0) =
       3 + status_queries (pollPaymentStatus sid (skip 3 r) (0 + 3)) \<and>
     total_wait (pollPaymentStatus sid r 0) =
       3 * pollInterval + total_wait (pollPaymentStatus sid (skip 3 r) (0 + 3))"
    by (rule poll_continue_n)
  have last: "pollPaymentStatus sid (skip 3 r) 3 =
     [StatusQuery sid, ConsoleError ''Error checking payment status:'',
      Alert ''Error'' ''Unable to verify payment status. Please check your consultation history.'' [],
      SetShowPaymentStatus False]"
    using assms(4) by (intro poll_failed) (simp_all add: maxAttempts_def skip_apply)
  from run last have "resolutions (pollPaymentStatus sid r 0) = [Failed] \<and>
         status_queries (pollPaymentStatus sid r 0) = 4"
    by simp
  then show ?thesis
    by (simp add: verify_observed)
qed

theorem failure_budget_counts_attempts_witness:
  "script [Rejected, Rejected, Resolved pending_data, Rejected, Rejected] Rejected 0 = Rejected \<and>
   script [Rejected, Rejected, Resolved pending_data, Rejected, Rejected] Rejected 1 = Rejected \<and>
   still_pending (script [Rejected, Rejected, Resolved pending_data, Rejected, Rejected] Rejected 2) \<and>
   script [Rejected, Rejected, Resolved pending_data, Rejected, Rejected] Rejected 3 = Rejected \<and>
   resolutions (pollPaymentStatus ''cs_1''
     (script [Rejected, Rejected, Resolved pending_data, Rejected, Rejected] Rejected) 0) = [Failed] \<and>
   status_queries (pollPaymentStatus ''cs_1''
     (script [Rejected, Rejected, Resolved pending_data, Rejected, Rejected] Rejected) 0) = 4 \<and>
   resolutions (verifyPaymentStatus ''cs_1''
     (script [Rejected, Rejected, Resolved pending_data, Rejected, Rejected] Rejected)
     DetailsRejected 0) = [Failed] \<and>
   status_queries (verifyPaymentStatus ''cs_1''
     (script [Rejected, Rejected, Resolved pending_data, Rejected, Rejected] Rejected)
     DetailsRejected 0) = 4"
  using failure_budget_counts_attempts
    [of "script [Rejected, Rejected, Resolved pending_data, Rejected, Rejected] Rejected"
        "''cs_1''" DetailsRejected]
  by (simp add: script_def still_pending_def pending_data_def)

text \<open>
  C2. The specification has a transport failure resolve Failed exactly when it is the third in a
  row, so that three failures from the start end the poll after three queries. The
  third failure is made with \<^verbatim>\<open>attempts = 2\<close>, which passes \<^verbatim>\<open>attempts < 3\<close>: a fourth
  query is issued. With the replies [failure, failure, failure, paid] both screens
  issue four queries and resolve Paid.
\<close>

theorem three_failures_counterexample:
  "status_queries (pollPaymentStatus ''cs_1''
     (script [Rejected, Rejected, Rejected] (Resolved paid_data)) 0) = 4 \<and>
   resolutions (pollPaymentStatus ''cs_1''
     (script [Rejected, Rejected, Rejected] (Resolved paid_data)) 0) = [Paid] \<and>
   status_queries (verifyPaymentStatus ''cs_1''
     (script [Rejected, Rejected, Rejected] (Resolved paid_data)) DetailsResolved 0) = 4 \<and>
   resolutions (verifyPaymentStatus ''cs_1''
     (script [Rejected, Rejected, Rejected] (Resolved paid_data)) DetailsResolved 0) = [Paid]"
  by (simp add: poll_retry poll_paid verify_retry verify_paid maxAttempts_def paid_data_def)

text \<open>
  C2, as the code has it. The query that fails in transport is the one that resolves
  Failed if and only if at least three queries of the invocation precede it
  (\<^verbatim>\<open>attempts \<ge> 3\<close>), whatever their outcomes. In particular, when the first four
  queries all fail, both screens resolve Failed after exactly four queries and issue
  no fifth.
\<close>

theorem transport_failure_fails_from_fourth_query:
  "(a < 10 \<and> r 0 = Rejected \<longrightarrow>
      ((resolutions (pollPaymentStatus sid r a) = [Failed] \<and>
        status_queries (pollPaymentStatus sid r a) = 1) \<longleftrightarrow> 3 \<le> a) \<and>
      ((resolutions (verifyPaymentStatus sid r det a) = [Failed] \<and>
        status_queries (verifyPaymentStatus sid r det a) = 1) \<longleftrightarrow> 3 \<le> a)) \<and>
   ((\<forall>i<4. r i = Rejected) \<longrightarrow>
      resolutions (pollPaymentStatus sid r 0) = [Failed] \<and>
      status_queries (pollPaymentStatus sid r 0) = 4 \<and>
      resolutions (verifyPaymentStatus sid r det 0) = [Failed] \<and>
      status_queries (verifyPaymentStatus sid r det 0) = 4)"
proof (intro conjI impI)
  assume h: "a < 10 \<and> r 0 = Rejected"
  show poll: "(resolutions (pollPaymentStatus sid r a) = [Failed] \<and>
        status_queries (pollPaymentStatus sid r a) = 1) \<longleftrightarrow> 3 \<le> a"
  proof (cases "a < 3")
    case True
    with h have "0 < status_queries (pollPaymentStatus sid (later r) (Suc a))"
      by (intro poll_queries_pos) (simp add: maxAttempts_def)
    with True h show ?thesis
      by (simp add: poll_retry)
  next
    case False
    with h show ?thesis
      by (simp add: poll_failed maxAttempts_def)
  qed
  then show "(resolutions (verifyPaymentStatus sid r det a) = [Failed] \<and>
        status_queries (verifyPaymentStatus sid r det a) = 1) \<longleftrightarrow> 3 \<le> a"
    by (simp add: verify_observed)
next
  assume h: "\<forall>i<4. r i = Rejected"
  have c: "continues (0 + i) (r i)" if "i < 3" for i
    using that h by (simp add: rejected_continues)
  have "0 + 3 \<le> maxAttempts" by (simp add: maxAttempts_def)
  from this c have run:
    "resolutions (pollPaymentStatus sid r 0) =
       resolutions (pollPaymentStatus sid (skip 3 r) (0 + 3)) \<and>
     status_queries (pollPaymentStatus sid r 0) =
       3 + status_queries (pollPaymentStatus sid (skip 3 r) (0 + 3)) \<and>
     total_wait (pollPaymentStatus sid r 0) =
       3 * pollInterval + total_wait (pollPaymentStatus sid (skip 3 r) (0 + 3))"
    by (rule poll_continue_n)
  have last: "pollPaymentStatus sid (skip 3 r) 3 =
     [StatusQuery sid, ConsoleError ''Error checking payment status:'',
      Alert ''Error'' ''Unable to verify payment status. Please check your consultation history.'' [],
      SetShowPaymentStatus False]"
    using h by (intro poll_failed) (simp_all add: maxAttempts_def skip_apply)
  from run last show
    "resolutions (pollPaymentStatus sid r 0) = [Failed]"
    "status_queries (pollPaymentStatus sid r 0) = 4"
    by simp_all
  then show
    "resolutions (verifyPaymentStatus sid r det 0) = [Failed]"
    "status_queries (verifyPaymentStatus sid r det 0) = 4"
    by (simp_all add: verify_observed)
qed

theorem transport_failure_fails_from_fourth_query_witness:
  "((3::nat) < 10 \<and> script [] Rejected 0 = Rejected) \<and>
   script [] Rejected 1 = Rejected \<and> script [] Rejected 2 = Rejected \<and>
   script [] Rejected 3 = Rejected \<and>
   resolutions (pollPaymentStatus ''cs_1'' (script [] Rejected) 3) = [Failed] \<and>
   status_queries (pollPaymentStatus ''cs_1'' (script [] Rejected) 3) = 1 \<and>
   resolutions (pollPaymentStatus ''cs_1'' (script [] Rejected) 0) = [Failed] \<and>
   status_queries (pollPaymentStatus ''cs_1'' (script [] Rejected) 0) = 4 \<and>
   resolutions (verifyPaymentStatus ''cs_1'' (script [] Rejected) DetailsRejected 0) = [Failed] \<and>
   status_queries (verifyPaymentStatus ''cs_1'' (script [] Rejected) DetailsRejected 0) = 4"
  using transport_failure_fails_from_fourth_query
    [of 3 "script [] Rejected" "''cs_1''" DetailsRejected]
  by simp

section \<open>The attempt budget\<close>

text \<open>
  C3. When every query succeeds and every reply is neither paid nor expired, the poller
  issues exactly 10 status queries and then resolves TimedOut; no query follows the
  notification, so there is no 11th.
\<close>

theorem all_pending_times_out:
  assumes "\<forall>k. still_pending (r k)"
  shows "status_queries (pollPaymentStatus sid r 0) = 10 \<and>
         resolutions (pollPaymentStatus sid r 0) = [TimedOut] \<and>
         queries_after_resolution (pollPaymentStatus sid r 0) = 0 \<and>
         status_queries (verifyPaymentStatus sid r det 0) = 10 \<and>
         resolutions (verifyPaymentStatus sid r det 0) = [TimedOut] \<and>
         queries_after_resolution (verifyPaymentStatus sid r det 0) = 0"
proof -
  have c: "continues (0 + i) (r i)" if "i < 10" for i
    using assms by (simp add: still_pending_continues)
  have "0 + 10 \<le> maxAttempts" by (simp add: maxAttempts_def)
  from this c have run:
    "resolutions (pollPaymentStatus sid r 0) =
       resolutions (pollPaymentStatus sid (skip 10 r) (0 + 10)) \<and>
     status_queries (pollPaymentStatus sid r 0) =
       10 + status_queries (pollPaymentStatus sid (skip 10 r) (0 + 10)) \<and>
     total_wait (pollPaymentStatus sid r 0) =
       10 * pollInterval + total_wait (pollPaymentStatus sid (skip 10 r) (0 + 10))"
    by (rule poll_continue_n)
  have last: "pollPaymentStatus sid (skip 10 r) 10 =
     [Alert ''Error'' ''Payment status check timed out. Please check your consultation history.'' [],
      SetShowPaymentStatus False]"
    by (intro poll_timed_out) (simp add: maxAttempts_def)
  from run last have "status_queries (pollPaymentStatus sid r 0) = 10 \<and>
         resolutions (pollPaymentStatus sid r 0) = [TimedOut]"
    by simp
  then show ?thesis
    by (simp add: verify_observed settles_no_query_after poll_settles verify_settles)
qed

theorem all_pending_times_out_witness:
  "(\<forall>k. still_pending ((\<lambda>_. Resolved pending_data) k)) \<and>
   status_queries (pollPaymentStatus ''cs_1'' (\<lambda>_. Resolved pending_data) 0) = 10 \<and>
   resolutions (pollPaymentStatus ''cs_1'' (\<lambda>_. Resolved pending_data) 0) = [TimedOut] \<and>
   status_queries (verifyPaymentStatus ''cs_1'' (\<lambda>_. Resolved pending_data)
     DetailsResolved 0) = 10 \<and>
   resolutions (verifyPaymentStatus ''cs_1'' (\<lambda>_. Resolved pending_data)
     DetailsResolved 0) = [TimedOut]"
proof -
  have h: "\<forall>k. still_pending ((\<lambda>_. Resolved pending_data) k)"
    by (simp add: still_pending_def pending_data_def)
  from all_pending_times_out [OF h, of "''cs_1''" DetailsResolved] h show ?thesis
    by simp
qed

text \<open>
  C4. The specification puts no bound on N. The attempt budget does: with ten pending replies
  followed by a paid one (N = 11), both screens stop after ten queries and resolve
  TimedOut; the paid reply is never fetched.
\<close>

theorem paid_at_eleventh_counterexample:
  "still_pending (Resolved pending_data) \<and>
   payment_status paid_data = Some ''paid'' \<and>
   script (replicate 10 (Resolved pending_data)) (Resolved paid_data) 10 = Resolved paid_data \<and>
   status_queries (pollPaymentStatus ''cs_1''
     (script (replicate 10 (Resolved pending_data)) (Resolved paid_data)) 0) = 10 \<and>
   resolutions (pollPaymentStatus ''cs_1''
     (script (replicate 10 (Resolved pending_data)) (Resolved paid_data)) 0) = [TimedOut] \<and>
   status_queries (verifyPaymentStatus ''cs_1''
     (script (replicate 10 (Resolved pending_data)) (Resolved paid_data)) DetailsResolved 0) = 10 \<and>
   resolutions (verifyPaymentStatus ''cs_1''
     (script (replicate 10 (Resolved pending_data)) (Resolved paid_data)) DetailsResolved 0)
     = [TimedOut]"
proof -
  have rep: "replicate 10 (Resolved pending_data) =
    [Resolved pending_data, Resolved pending_data, Resolved pending_data, Resolved pending_data,
     Resolved pending_data, Resolved pending_data, Resolved pending_data, Resolved pending_data,
     Resolved pending_data, Resolved pending_data]"
    by (simp add: numeral_eq_Suc)
  have p: "payment_status pending_data \<noteq> Some ''paid''" "status pending_data \<noteq> Some ''expired''"
    by (simp_all add: pending_data_def)
  have tenth: "script (replicate 10 (Resolved pending_data)) (Resolved paid_data) 10 = Resolved paid_data"
    by (simp add: script_def)
  show ?thesis
    unfolding tenth unfolding rep
    using p
    by (simp add: poll_pending poll_timed_out verify_pending verify_timed_out maxAttempts_def
        still_pending_def paid_data_def)
qed

text \<open>
  C4, within the attempt budget. For 1 \<le> N \<le> 10: when the first N - 1 replies are
  successful and neither paid nor expired, and the Nth reply reports paid, the poller
  issues exactly N status queries, arms N - 1 timers of 2000 ms each, resolves Paid,
  and issues no query after that.
\<close>

theorem paid_at_nth_query:
  assumes "1 \<le> N" and "N \<le> 10"
    and "\<forall>i<N - 1. still_pending (r i)"
    and "r (N - 1) = Resolved d" and "payment_status d = Some ''paid''"
  shows "status_queries (pollPaymentStatus sid r 0) = N \<and>
         total_wait (pollPaymentStatus sid r 0) = (N - 1) * 2000 \<and>
         resolutions (pollPaymentStatus sid r 0) = [Paid] \<and>
         queries_after_resolution (pollPaymentStatus sid r 0) = 0 \<and>
         status_queries (verifyPaymentStatus sid r det 0) = N \<and>
         total_wait (verifyPaymentStatus sid r det 0) = (N - 1) * 2000 \<and>
         resolutions (verifyPaymentStatus sid r det 0) = [Paid] \<and>
         queries_after_resolution (verifyPaymentStatus sid r det 0) = 0"
proof -
  have c: "continues (0 + i) (r i)" if "i < N - 1" for i
    using assms(3) that by (simp add: still_pending_continues)
  from assms(2) have "0 + (N - 1) \<le> maxAttempts" by (simp add: maxAttempts_def)
  from this c have run:
    "resolutions (pollPaymentStatus sid r 0) =
       resolutions (pollPaymentStatus sid (skip (N - 1) r) (0 + (N - 1))) \<and>
     status_queries (pollPaymentStatus sid r 0) =
       (N - 1) + status_queries (pollPaymentStatus sid (skip (N - 1) r) (0 + (N - 1))) \<and>
     total_wait (pollPaymentStatus sid r 0) =
       (N - 1) * pollInterval + total_wait (pollPaymentStatus sid (skip (N - 1) r) (0 + (N - 1)))"
    by (rule poll_continue_n)
  have last: "pollPaymentStatus sid (skip (N - 1) r) (N - 1) =
     [StatusQuery sid,
      Alert ''Payment Successful!''
        ''Your consultation has been booked successfully. You will receive a confirmation email shortly.''
        [''OK'']]"
    using assms by (intro poll_paid [where d = d]) (simp_all add: maxAttempts_def skip_apply)
  from run last assms(1) have "status_queries (pollPaymentStatus sid r 0) = N \<and>
         total_wait (pollPaymentStatus sid r 0) = (N - 1) * 2000 \<and>
         resolutions (pollPaymentStatus sid r 0) = [Paid]"
    by (simp add: pollInterval_def)
  then show ?thesis
    by (simp add: verify_observed settles_no_query_after poll_settles verify_settles)
qed

theorem paid_at_nth_query_witness:
  "(1::nat) \<le> 3 \<and> (3::nat) \<le> 10 \<and>
   still_pending (script [Resolved pending_data, Resolved pending_data] (Resolved paid_data) 0) \<and>
   still_pending (script [Resolved pending_data, Resolved pending_data] (Resolved paid_data) 1) \<and>
   script [Resolved pending_data, Resolved pending_data] (Resolved paid_data) (3 - 1)
     = Resolved paid_data \<and>
   payment_status paid_data = Some ''paid'' \<and>
   status_queries (pollPaymentStatus ''cs_1''
     (script [Resolved pending_data, Resolved pending_data] (Resolved paid_data)) 0) = 3 \<and>
   total_wait (pollPaymentStatus ''cs_1''
     (script [Resolved pending_data, Resolved pending_data] (Resolved paid_data)) 0) = 4000 \<and>
   resolutions (pollPaymentStatus ''cs_1''
     (script [Resolved pending_data, Resolved pending_data] (Resolved paid_data)) 0) = [Paid] \<and>
   status_queries (verifyPaymentStatus ''cs_1''
     (script [Resolved pending_data, Resolved pending_data] (Resolved paid_data))
     DetailsResolved 0) = 3 \<and>
   total_wait (verifyPaymentStatus ''cs_1''
     (script [Resolved pending_data, Resolved pending_data] (Resolved paid_data))
     DetailsResolved 0) = 4000 \<and>
   resolutions (verifyPaymentStatus ''cs_1''
     (script [Resolved pending_data, Resolved pending_data] (Resolved paid_data))
     DetailsResolved 0) = [Paid]"
proof -
  have h3: "\<forall>i<3 - 1. still_pending
      (script [Resolved pending_data, Resolved pending_data] (Resolved paid_data) i)"
    by (simp add: script_def still_pending_def pending_data_def less_Suc_eq nth_Cons')
  have h4: "script [Resolved pending_data, Resolved pending_data] (Resolved paid_data) (3 - 1)
     = Resolved paid_data"
    by (simp add: script_def)
  have h5: "payment_status paid_data = Some ''paid''"
    by (simp add: paid_data_def)
  have h1: "(1::nat) \<le> 3" and h2: "(3::nat) \<le> 10" by simp_all
  have p:
    "still_pending (script [Resolved pending_data, Resolved pending_data] (Resolved paid_data) 0)"
    "still_pending (script [Resolved pending_data, Resolved pending_data] (Resolved paid_data) 1)"
    by (simp_all add: script_def still_pending_def pending_data_def)
  from paid_at_nth_query [OF h1 h2 h3 h4 h5, of "''cs_1''" DetailsResolved] p h4 h5
  show ?thesis by simp
qed

section \<open>Classification of a reply\<close>

text \<open>
  C5. A successful reply to a query made within the budget is classified by two tests,
  in this order: \<^verbatim>\<open>payment_status === 'paid'\<close> resolves Paid; otherwise
  \<^verbatim>\<open>status === 'expired'\<close> resolves Expired; every other reply (pending or
  unrecognised) makes the call arm a 2000 ms timer for the same routine with
  \<^verbatim>\<open>attempts + 1\<close> and the remaining replies, with no notification of its own.
\<close>

theorem reply_classification:
  assumes "a < 10" and "r 0 = Resolved d"
  shows
    "(if payment_status d = Some ''paid'' then
        resolutions (pollPaymentStatus sid r a) = [Paid] \<and>
        status_queries (pollPaymentStatus sid r a) = 1 \<and>
        resolutions (verifyPaymentStatus sid r det a) = [Paid] \<and>
        status_queries (verifyPaymentStatus sid r det a) = 1
      else if status d = Some ''expired'' then
        resolutions (pollPaymentStatus sid r a) = [Expired] \<and>
        status_queries (pollPaymentStatus sid r a) = 1 \<and>
        resolutions (verifyPaymentStatus sid r det a) = [Expired] \<and>
        status_queries (verifyPaymentStatus sid r det a) = 1
      else
        pollPaymentStatus sid r a =
          StatusQuery sid # SetTimeout 2000 # pollPaymentStatus sid (later r) (a + 1) \<and>
        verifyPaymentStatus sid r det a =
          StatusQuery sid # SetTimeout 2000 # verifyPaymentStatus sid (later r) det (a + 1))"
proof -
  from assms(1) have a: "a < maxAttempts" by (simp add: maxAttempts_def)
  consider
    (paid) "payment_status d = Some ''paid''"
  | (expired) "payment_status d \<noteq> Some ''paid''" "status d = Some ''expired''"
  | (pending) "payment_status d \<noteq> Some ''paid''" "status d \<noteq> Some ''expired''"
    by blast
  then show ?thesis
  proof cases
    case paid
    with a assms(2) have "resolutions (pollPaymentStatus sid r a) = [Paid] \<and>
        status_queries (pollPaymentStatus sid r a) = 1"
      by (simp add: poll_paid)
    with paid show ?thesis by (simp add: verify_observed)
  next
    case expired
    with a assms(2) have "resolutions (pollPaymentStatus sid r a) = [Expired] \<and>
        status_queries (pollPaymentStatus sid r a) = 1"
      by (simp add: poll_expired)
    with expired show ?thesis by (simp add: verify_observed)
  next
    case pending
    with a assms(2) show ?thesis
      by (simp add: poll_pending verify_pending pollInterval_def)
  qed
qed

theorem reply_classification_witness:
  "(0::nat) < 10 \<and> (\<lambda>_. Resolved pending_data) (0::nat) = Resolved pending_data \<and>
   pollPaymentStatus ''cs_1'' (\<lambda>_. Resolved pending_data) 0 =
     StatusQuery ''cs_1'' # SetTimeout 2000 #
     pollPaymentStatus ''cs_1'' (later (\<lambda>_. Resolved pending_data)) (0 + 1) \<and>
   verifyPaymentStatus ''cs_1'' (\<lambda>_. Resolved pending_data) DetailsResolved 0 =
     StatusQuery ''cs_1'' # SetTimeout 2000 #
     verifyPaymentStatus ''cs_1'' (later (\<lambda>_. Resolved pending_data)) DetailsResolved (0 + 1)"
proof -
  have h1: "(0::nat) < 10" by simp
  have h2: "(\<lambda>_. Resolved pending_data) (0::nat) = Resolved pending_data" by simp
  have p: "payment_status pending_data \<noteq> Some ''paid''" "status pending_data \<noteq> Some ''expired''"
    by (simp_all add: pending_data_def)
  from reply_classification [OF h1 h2, of "''cs_1''" DetailsResolved] p show ?thesis
    by simp
qed

text \<open>
  C10. A reply that is both paid and expired resolves Paid, since the paid test comes
  first; and the call takes the Expired branch exactly when the reply is not paid and
  is expired.
\<close>

theorem paid_checked_before_expired:
  assumes "a < 10" and "r 0 = Resolved d"
  shows
    "(if payment_status d = Some ''paid'' \<and> status d = Some ''expired'' then
        resolutions (pollPaymentStatus sid r a) = [Paid] \<and>
        resolutions (verifyPaymentStatus sid r det a) = [Paid]
      else True) \<and>
     ((pollPaymentStatus sid r a =
         [StatusQuery sid,
          Alert ''Payment Expired'' ''Your payment session has expired. Please try booking again.'' [],
          SetShowPaymentStatus False]) =
      (payment_status d \<noteq> Some ''paid'' \<and> status d = Some ''expired'')) \<and>
     ((verifyPaymentStatus sid r det a =
         [StatusQuery sid, SetPaymentStatus ''expired'', SetLoading False]) =
      (payment_status d \<noteq> Some ''paid'' \<and> status d = Some ''expired''))"
proof -
  from assms(1) have a: "a < maxAttempts" by (simp add: maxAttempts_def)
  consider
    (paid) "payment_status d = Some ''paid''"
  | (expired) "payment_status d \<noteq> Some ''paid''" "status d = Some ''expired''"
  | (pending) "payment_status d \<noteq> Some ''paid''" "status d \<noteq> Some ''expired''"
    by blast
  then show ?thesis
  proof cases
    case paid
    with a assms(2) show ?thesis
      by (simp add: poll_paid verify_paid split: details_result.split)
  next
    case expired
    with a assms(2) show ?thesis
      by (simp add: poll_expired verify_expired)
  next
    case pending
    with a assms(2) show ?thesis
      by (simp add: poll_pending verify_pending)
  qed
qed

theorem paid_checked_before_expired_witness:
  "(0::nat) < 10 \<and>
   resolutions (pollPaymentStatus ''cs_1''
     (\<lambda>_. Resolved \<lparr>payment_status = Some ''paid'', status = Some ''expired'',
                     consultation_request_id = JUndefined\<rparr>) 0) = [Paid] \<and>
   resolutions (verifyPaymentStatus ''cs_1''
     (\<lambda>_. Resolved \<lparr>payment_status = Some ''paid'', status = Some ''expired'',
                     consultation_request_id = JUndefined\<rparr>) DetailsResolved 0) = [Paid] \<and>
   pollPaymentStatus ''cs_1''
     (\<lambda>_. Resolved \<lparr>payment_status = Some ''paid'', status = Some ''expired'',
                     consultation_request_id = JUndefined\<rparr>) 0 \<noteq>
     [StatusQuery ''cs_1'',
      Alert ''Payment Expired'' ''Your payment session has expired. Please try booking again.'' [],
      SetShowPaymentStatus False]"
proof -
  have h1: "(0::nat) < 10" by simp
  have h2: "(\<lambda>_. Resolved \<lparr>payment_status = Some ''paid'', status = Some ''expired'',
                     consultation_request_id = JUndefined\<rparr>) (0::nat) =
     Resolved \<lparr>payment_status = Some ''paid'', status = Some ''expired'',
                     consultation_request_id = JUndefined\<rparr>" by simp
  from paid_checked_before_expired [OF h1 h2, of "''cs_1''" DetailsResolved] show ?thesis
    by simp
qed

section \<open>Termination and the lifecycle\<close>

text \<open>
  C6. For every sequence of query outcomes (a total function on the naturals, hence
  infinite) both routines return: they are total functions, their recursion measured
  by \<open>maxAttempts - attempts\<close>. An invocation issues at most 10 status queries and
  delivers exactly one notification, which is one of Paid, Expired, TimedOut, Failed.
\<close>

theorem poll_bounded_single_outcome:
  "status_queries (pollPaymentStatus sid r 0) \<le> 10 \<and>
   (\<exists>out. resolutions (pollPaymentStatus sid r 0) = [out] \<and>
          out \<in> {Paid, Expired, TimedOut, Failed}) \<and>
   status_queries (verifyPaymentStatus sid r det 0) \<le> 10 \<and>
   (\<exists>out. resolutions (verifyPaymentStatus sid r det 0) = [out] \<and>
          out \<in> {Paid, Expired, TimedOut, Failed})"
proof -
  have q: "status_queries (pollPaymentStatus sid r 0) \<le> 10"
    using poll_queries_bound [of sid r 0] by (simp add: maxAttempts_def)
  obtain out where out: "resolutions (pollPaymentStatus sid r 0) = [out]"
    using settles_one [OF poll_settles] by blast
  have "out \<in> {Paid, Expired, TimedOut, Failed}"
    by (cases out) simp_all
  with q out show ?thesis
    by (simp add: verify_observed)
qed

theorem poll_bounded_single_outcome_witness:
  "status_queries (pollPaymentStatus ''cs_1'' (\<lambda>_. Rejected) 0) \<le> 10 \<and>
   (\<exists>out. resolutions (pollPaymentStatus ''cs_1'' (\<lambda>_. Rejected) 0) = [out] \<and>
          out \<in> {Paid, Expired, TimedOut, Failed})"
  using poll_bounded_single_outcome [of "''cs_1''" "\<lambda>_. Rejected" DetailsRejected]
  by simp

text \<open>
  C7. Terminal states are absorbing. After any number of effects of an invocation
  exactly one of still polling, terminal-success, terminal-expired, terminal-error
  holds; the whole invocation delivers exactly one terminal notification; and no
  status query is issued after it.
\<close>

theorem terminal_states_absorbing:
  "(\<forall>k. exactly_one
          [still_polling (take k (pollPaymentStatus sid r a)),
           terminal_success (take k (pollPaymentStatus sid r a)),
           terminal_expired (take k (pollPaymentStatus sid r a)),
           terminal_error (take k (pollPaymentStatus sid r a))]) \<and>
   length (resolutions (pollPaymentStatus sid r a)) = 1 \<and>
   queries_after_resolution (pollPaymentStatus sid r a) = 0 \<and>
   (\<forall>k. exactly_one
          [still_polling (take k (verifyPaymentStatus sid r det a)),
           terminal_success (take k (verifyPaymentStatus sid r det a)),
           terminal_expired (take k (verifyPaymentStatus sid r det a)),
           terminal_error (take k (verifyPaymentStatus sid r det a))]) \<and>
   length (resolutions (verifyPaymentStatus sid r det a)) = 1 \<and>
   queries_after_resolution (verifyPaymentStatus sid r det a) = 0"
proof -
  have gen: "(\<forall>k. exactly_one
          [still_polling (take k tr), terminal_success (take k tr),
           terminal_expired (take k tr), terminal_error (take k tr)]) \<and>
      length (resolutions tr) = 1 \<and> queries_after_resolution tr = 0"
    if s: "settles tr" for tr
  proof -
    from settles_one [OF s] have "length (resolutions tr) = 1" by auto
    moreover from s have "queries_after_resolution tr = 0" by (rule settles_no_query_after)
    moreover have "exactly_one
          [still_polling (take k tr), terminal_success (take k tr),
           terminal_expired (take k tr), terminal_error (take k tr)]" for k
      by (rule phases_exactly_one) (rule settles_prefix [OF s])
    ultimately show ?thesis by blast
  qed
  from gen [OF poll_settles, of sid r a] gen [OF verify_settles, of sid r det a]
  show ?thesis by blast
qed

theorem terminal_states_absorbing_witness:
  "length (resolutions (pollPaymentStatus ''cs_1''
     (script [Resolved pending_data] (Resolved paid_data)) 0)) = 1 \<and>
   queries_after_resolution (pollPaymentStatus ''cs_1''
     (script [Resolved pending_data] (Resolved paid_data)) 0) = 0 \<and>
   length (resolutions (verifyPaymentStatus ''cs_1''
     (script [Resolved pending_data] (Resolved paid_data)) DetailsResolved 0)) = 1 \<and>
   queries_after_resolution (verifyPaymentStatus ''cs_1''
     (script [Resolved pending_data] (Resolved paid_data)) DetailsResolved 0) = 0"
  using terminal_states_absorbing
    [of "''cs_1''" "script [Resolved pending_data] (Resolved paid_data)" 0 DetailsResolved]
  by simp

section \<open>The two screens\<close>

text \<open>
  C8. The two copies of the polling loop are behaviourally equivalent: on the same
  replies, and from the same attempt count, \<^verbatim>\<open>verifyPaymentStatus\<close> delivers the
  same terminal outcome as \<^verbatim>\<open>pollPaymentStatus\<close>, after the same number of status
  queries and the same total delay.
\<close>

theorem screens_equivalent:
  "resolutions (verifyPaymentStatus sid r det a) = resolutions (pollPaymentStatus sid r a) \<and>
   status_queries (verifyPaymentStatus sid r det a) = status_queries (pollPaymentStatus sid r a) \<and>
   total_wait (verifyPaymentStatus sid r det a) = total_wait (pollPaymentStatus sid r a) \<and>
   length (resolutions (pollPaymentStatus sid r a)) = 1"
proof -
  from settles_one [OF poll_settles, of sid r a]
  have "length (resolutions (pollPaymentStatus sid r a)) = 1" by auto
  then show ?thesis by (simp add: verify_observed)
qed

theorem screens_equivalent_witness:
  "resolutions (verifyPaymentStatus ''cs_1''
     (script [Rejected, Resolved pending_data] (Resolved paid_data)) DetailsResolved 0) =
   resolutions (pollPaymentStatus ''cs_1''
     (script [Rejected, Resolved pending_data] (Resolved paid_data)) 0) \<and>
   status_queries (verifyPaymentStatus ''cs_1''
     (script [Rejected, Resolved pending_data] (Resolved paid_data)) DetailsResolved 0) =
   status_queries (pollPaymentStatus ''cs_1''
     (script [Rejected, Resolved pending_data] (Resolved paid_data)) 0)"
  using screens_equivalent
    [of "''cs_1''" "script [Rejected, Resolved pending_data] (Resolved paid_data)" DetailsResolved 0]
  by simp

section \<open>The screen and the routine\<close>



























section \<open>Cancellation\<close>




end
